theory Spec2Isabelle
  imports Main "HOL-Library.Word"
begin

unbundle bit_operations_syntax

section \<open>f007th\_send.cpp: the dispatch pipeline\<close>

text \<open>
  A shallow embedding of \<^verbatim>\<open>write_callback\<close>, \<^verbatim>\<open>send\<close> and the body of the
  receive loop of \<^verbatim>\<open>main\<close>. The program is C++ on top of libcurl and stdio, so
  \<^item> \<^verbatim>\<open>size_t\<close> is \<open>'a word\<close> for any width \<open>'a\<close> (32 bits on a Raspberry Pi),
    with its wrap-around;
  \<^item> the two \<^verbatim>\<open>malloc\<close>ed buffers are byte lists, and every access through an index
    or a C string read is checked against the length of the list: an access the C
    program makes outside its buffer is a \<open>fault\<close> of the model;
  \<^item> the calls into stdio, libcurl and the collaborators of \<^verbatim>\<open>main\<close> are recorded,
    in order, as the events of a trace that is part of the state;
  \<^item> what the outside world answers (the encoder's output, whether libcurl hands out
    a handle, the chunks it delivers to the write callback, its result code and
    the HTTP status, the receiver's message, the change tracker's bitmask) is a
    parameter.
\<close>

subsection \<open>Constants of the headers\<close>

text \<open>
  \<^verbatim>\<open>RFReceiver.hpp\<close> and \<^verbatim>\<open>SensorsData.hpp\<close> define the macros below; the
  headers are not part of the sources at hand, so the values are parameters.
\<close>

record header =
  SEND_DATA_BUFFER_SIZE :: nat
  SERVER_RESPONSE_BUFFER_SIZE :: nat
  VERBOSITY_INFO :: int
  VERBOSITY_PRINT_DETAILS :: int
  VERBOSITY_PRINT_JSON :: int
  VERBOSITY_PRINT_CURL :: int
  TEMPERATURE_IS_CHANGED :: int
  HUMIDITY_IS_CHANGED :: int
  BATTERY_STATUS_IS_CHANGED :: int

subsection \<open>Data\<close>

type_synonym byte = "8 word"

datatype ServerType = REST | InfluxDB

text \<open>\<^verbatim>\<open>CURLcode\<close>, with the two values of \<^verbatim>\<open>curl/curl.h\<close> the program names.\<close>

type_synonym CURLcode = nat

definition CURLE_OK :: CURLcode where
  "CURLE_OK = 0"

definition CURLE_ABORTED_BY_CALLBACK :: CURLcode where
  "CURLE_ABORTED_BY_CALLBACK = 42"

text \<open>
  \<^verbatim>\<open>struct PutData\<close>. The two pointers are offsets into the buffer they point
  into: \<open>data\<close> into the outbound buffer, \<open>response_data\<close> into the inbound one.
\<close>

record (overloaded) 'a PutData =
  data :: nat
  len :: "'a word"
  response_data :: nat
  response_len :: "'a word"
  verbose :: bool

text \<open>The three \<^verbatim>\<open>FILE*\<close> the program writes to; \<open>Log\<close> is the log file.\<close>

datatype stream = Stdout | Stderr | Log

text \<open>
  The methods of \<^verbatim>\<open>ReceivedMessage\<close> the program calls. The class is declared in
  \<^verbatim>\<open>RFReceiver.hpp\<close>, so a message is the record of what its methods return.
  An encoder takes the contents of the outbound buffer, its size and its
  options, and returns the length it reports and the contents it leaves.
\<close>

record ReceivedMessage =
  isEmpty :: bool
  isUndecoded :: bool
  getDecodingStatus :: int
  isValid :: bool
  print :: "stream \<Rightarrow> int \<Rightarrow> bool"
  json :: "byte list \<Rightarrow> nat \<Rightarrow> bool \<Rightarrow> bool \<Rightarrow> int \<times> byte list"
  influxDB :: "byte list \<Rightarrow> nat \<Rightarrow> int \<Rightarrow> bool \<Rightarrow> int \<times> byte list"

subsection \<open>Effects\<close>

datatype arg = ArgStr string | ArgLong int | ArgSize nat | ArgHex int | ArgStrerror CURLcode

datatype curlopt =
    CURLOPT_VERBOSE int
  | CURLOPT_HTTPHEADER "string list"
  | CURLOPT_URL string
  | CURLOPT_CUSTOMREQUEST string
  | CURLOPT_POSTFIELDS "byte list"
  | CURLOPT_WRITEFUNCTION
  | CURLOPT_WRITEDATA

text \<open>
  One event per call that leaves the program. \<open>Fputs_buffer\<close> is \<^verbatim>\<open>fputs\<close> of
  the C string found in a buffer; \<open>Enter_send\<close> marks an invocation of
  \<^verbatim>\<open>send\<close> with its server type and change bitmask.
\<close>

datatype event =
    Fputs string stream
  | Fputs_buffer "byte list" stream
  | Fputc char stream
  | Fprintf stream string "arg list"
  | Fflush stream
  | Curl_easy_init
  | Curl_easy_setopt curlopt
  | Curl_easy_perform
  | Curl_easy_getinfo_response_code
  | Curl_easy_cleanup
  | Curl_slist_free_all
  | Message_print stream
  | SensorsData_update
  | Enter_send ServerType int
  | PrintStatistics

datatype fault =
    WriteOutOfBounds nat
  | ReadOutOfBounds nat
  | ReadPastEnd nat

record state =
  data_buffer :: "byte list"
  response_buffer :: "byte list"
  trace :: "event list"

definition emit :: "event \<Rightarrow> state \<Rightarrow> state" where
  "emit e s = s\<lparr>trace := trace s @ [e]\<rparr>"

text \<open>\<^verbatim>\<open>buf[i] = v\<close> and \<^verbatim>\<open>buf[i]\<close>.\<close>

definition store :: "byte list \<Rightarrow> nat \<Rightarrow> byte \<Rightarrow> fault + byte list" where
  "store buf i v = (if i < length buf then Inr (buf[i := v]) else Inl (WriteOutOfBounds i))"

definition load :: "byte list \<Rightarrow> nat \<Rightarrow> fault + byte" where
  "load buf i = (if i < length buf then Inr (buf ! i) else Inl (ReadOutOfBounds i))"

text \<open>
  \<^verbatim>\<open>memcpy(dst + off, src, n)\<close>: \<open>n\<close> bytes are read from the start of \<open>src\<close>
  and written from offset \<open>off\<close> of \<open>dst\<close>.
\<close>

definition memcpy :: "byte list \<Rightarrow> nat \<Rightarrow> byte list \<Rightarrow> nat \<Rightarrow> fault + byte list" where
  "memcpy dst off src n =
     (if length src < n then Inl (ReadOutOfBounds (length src))
      else if length dst < off + n then Inl (WriteOutOfBounds (length dst))
      else Inr (take off dst @ take n src @ drop (off + n) dst))"

text \<open>
  Reading a buffer as a C string, as \<^verbatim>\<open>fputs\<close> does: the bytes before the first
  NUL. A buffer that holds no NUL is read past its end.
\<close>

definition c_string :: "byte list \<Rightarrow> fault + byte list" where
  "c_string buf =
     (if 0 \<in> set buf then Inr (takeWhile (\<lambda>b. b \<noteq> 0) buf) else Inl (ReadPastEnd (length buf)))"

subsection \<open>The write callback\<close>

text \<open>
  One call of libcurl into the write callback: \<open>ptr\<close> holds the bytes delivered,
  \<open>size_arg\<close> and \<open>nmemb\<close> are the two counts libcurl passes.
\<close>

record (overloaded) 'a chunk =
  ptr :: "byte list"
  size_arg :: "'a word"
  nmemb :: "'a word"

definition write_callback ::
  "byte list \<Rightarrow> 'a::len word \<Rightarrow> 'a word \<Rightarrow> 'a PutData \<times> state \<Rightarrow> fault + ('a word \<times> 'a PutData \<times> state)"
where
  "write_callback p sz n ds =
     (let d = fst ds; s = snd ds;
          curl_size = n * sz;
          to_copy = (if response_len d < curl_size then response_len d else curl_size);
          s1 = (if verbose d
                then emit (Fprintf Stderr ''receiving %d bytes...\<newline>'' [ArgSize (unat to_copy)]) s
                else s)
      in if to_copy > 0 then
           (case memcpy (response_buffer s1) (response_data d) p (unat to_copy) of
              Inl f \<Rightarrow> Inl f
            | Inr buf \<Rightarrow>
                Inr (to_copy,
                     d\<lparr>response_len := response_len d - to_copy,
                       response_data := response_data d + unat to_copy\<rparr>,
                     s1\<lparr>response_buffer := buf\<rparr>))
         else Inr (sz, d, s1))"

text \<open>
  The calls of the write callback during one \<^verbatim>\<open>curl_easy_perform\<close>, in the
  order libcurl makes them.
\<close>

fun deliver :: "'a::len chunk list \<Rightarrow> 'a PutData \<times> state \<Rightarrow> fault + ('a PutData \<times> state)" where
  "deliver [] ds = Inr ds"
| "deliver (c # cs) ds =
     (case write_callback (ptr c) (size_arg c) (nmemb c) ds of
        Inl f \<Rightarrow> Inl f
      | Inr r \<Rightarrow> deliver cs (snd r))"

subsection \<open>send\<close>

text \<open>
  What libcurl does during one call of \<^verbatim>\<open>send\<close>: whether \<^verbatim>\<open>curl_easy_init\<close>
  returns a handle, the calls of the write callback it makes during
  \<^verbatim>\<open>curl_easy_perform\<close>, the code that call returns, and the response code
  \<^verbatim>\<open>curl_easy_getinfo\<close> reports (0 when no response was received).
\<close>

record (overloaded) 'a exchange =
  handle_available :: bool
  chunks :: "'a chunk list"
  rc :: CURLcode
  http_code :: int

definition and_then :: "fault + 'x \<Rightarrow> ('x \<Rightarrow> fault + 'y) \<Rightarrow> fault + 'y" where
  "and_then m f = (case m of Inl e \<Rightarrow> Inl e | Inr v \<Rightarrow> f v)"

text \<open>Lines 257 to 261: the encoder of the server type writes into the outbound buffer.\<close>

definition encode ::
  "header \<Rightarrow> ReceivedMessage \<Rightarrow> ServerType \<Rightarrow> int \<Rightarrow> int \<Rightarrow> byte list \<Rightarrow> int \<times> byte list"
where
  "encode h message server_type changed verbosity db =
     (if server_type = InfluxDB
      then influxDB message db (SEND_DATA_BUFFER_SIZE h) changed
             (verbosity AND VERBOSITY_PRINT_JSON h \<noteq> 0)
      else json message db (SEND_DATA_BUFFER_SIZE h) True
             (verbosity AND VERBOSITY_PRINT_JSON h \<noteq> 0))"

text \<open>Lines 252 to 261: the outbound buffer is emptied and the encoder is called.\<close>

definition send_encode ::
  "header \<Rightarrow> ReceivedMessage \<Rightarrow> ServerType \<Rightarrow> int \<Rightarrow> int \<Rightarrow> state \<Rightarrow> fault + (int \<times> state)"
where
  "send_encode h message server_type changed verbosity s0 =
     (let s1 = emit (Enter_send server_type changed) s0;
          s2 = (if verbosity AND VERBOSITY_PRINT_DETAILS h \<noteq> 0
                then emit (Fputs ''===> called send()\<newline>'' Stderr) s1 else s1)
      in and_then (store (data_buffer s2) 0 0) (\<lambda>db.
           let r = encode h message server_type changed verbosity db
           in Inr (fst r, s2\<lparr>data_buffer := snd r\<rparr>)))"

text \<open>
  Lines 281 to 309: the options set on the handle. The result is the header list
  (\<open>[]\<close> is the NULL list) and the state.
\<close>

definition send_request ::
  "header \<Rightarrow> string \<Rightarrow> ServerType \<Rightarrow> int \<Rightarrow> state \<Rightarrow> string list \<times> state"
where
  "send_request h url server_type verbosity s0 =
     (let s1 = (if verbosity AND VERBOSITY_PRINT_CURL h \<noteq> 0
                then emit (Curl_easy_setopt (CURLOPT_VERBOSE 1)) s0 else s0);
          headers0 = [];
          headers1 = (if server_type = REST
                      then headers0 @ [''Content-Type: application/json'',
                                       ''Accept: application/json'',
                                       ''charsets: utf-8'',
                                       ''Connection: close'']
                      else headers0);
          s2 = (if server_type = REST
                then emit (Curl_easy_setopt (CURLOPT_HTTPHEADER headers1)) s1 else s1);
          headers2 = (if server_type = InfluxDB
                      then headers1 @ [''Content-Type:'', ''Accept:'']
                      else headers1);
          s3 = (if server_type = InfluxDB
                then emit (Curl_easy_setopt (CURLOPT_HTTPHEADER headers2)) s2 else s2);
          s4 = emit (Curl_easy_setopt (CURLOPT_URL url)) s3;
          s5 = (if server_type = InfluxDB
                then emit (Curl_easy_setopt (CURLOPT_CUSTOMREQUEST ''POST'')) s4
                else emit (Curl_easy_setopt (CURLOPT_CUSTOMREQUEST ''PUT'')) s4);
          s6 = emit (Curl_easy_setopt (CURLOPT_POSTFIELDS (data_buffer s5))) s5;
          s7 = emit (Curl_easy_setopt CURLOPT_WRITEFUNCTION) s6;
          s8 = emit (Curl_easy_setopt CURLOPT_WRITEDATA) s7
      in (headers2, s8))"

text \<open>Line 311: the exchange. libcurl calls the write callback and returns its code.\<close>

definition curl_easy_perform ::
  "'a::len exchange \<Rightarrow> 'a PutData \<times> state \<Rightarrow> fault + (CURLcode \<times> 'a PutData \<times> state)"
where
  "curl_easy_perform x ds =
     and_then (deliver (chunks x) (fst ds, emit Curl_easy_perform (snd ds)))
       (\<lambda>r. Inr (rc x, r))"

text \<open>Lines 316 to 321: with details verbosity, the response is terminated and echoed.\<close>

definition send_echo ::
  "header \<Rightarrow> bool \<Rightarrow> 'a::len PutData \<times> state \<Rightarrow> fault + ('a PutData \<times> state)"
where
  "send_echo h vb ds =
     (let d = fst ds; s = snd ds
      in if vb then
           and_then (load (response_buffer s) 0) (\<lambda>b.
             if b \<noteq> 0 then
               (let d1 = (if response_len d \<le> 0
                          then d\<lparr>response_len := response_len d - 1\<rparr> else d)
                in and_then
                     (store (response_buffer s)
                        (unat (of_nat (SERVER_RESPONSE_BUFFER_SIZE h) - response_len d1)) 0)
                     (\<lambda>buf. and_then (c_string buf) (\<lambda>str.
                        Inr (d1, emit (Fputc CHR 0x0A Stderr)
                                   (emit (Fputs_buffer str Stderr) (s\<lparr>response_buffer := buf\<rparr>))))))
             else Inr (d, s))
         else Inr (d, s))"

text \<open>\<^verbatim>\<open>fputs(response_buffer, log); fputc('\n', log);\<close>\<close>

definition log_response :: "state \<Rightarrow> fault + state" where
  "log_response s =
     and_then (c_string (response_buffer s)) (\<lambda>str.
       Inr (emit (Fputc CHR 0x0A Log) (emit (Fputs_buffer str Log) s)))"

text \<open>Lines 322 to 341: the outcome is classified and reported.\<close>

definition send_classify ::
  "string \<Rightarrow> ServerType \<Rightarrow> bool \<Rightarrow> CURLcode \<Rightarrow> int \<Rightarrow> state \<Rightarrow> fault + (bool \<times> state)"
where
  "send_classify url server_type vb rc0 code s0 =
     (let success = (rc0 = CURLE_OK);
          s1 = emit Curl_easy_getinfo_response_code s0
      in if code \<noteq> (if server_type = InfluxDB then 204 else 200) then
           (let success1 = False;
                s2 = (if code = 0
                      then emit (Fprintf Stderr ''ERROR: Failed to connect to server %s\<newline>''
                                   [ArgStr url]) s1
                      else emit (Fprintf Stderr ''ERROR: Got HTTP status code %ld.\<newline>''
                                   [ArgLong code]) s1)
            in and_then (if vb then log_response s2 else Inr s2) (\<lambda>s3.
                 and_then
                   (log_response
                      (emit (Fprintf Log ''ERROR: Got HTTP status code %ld.\<newline>''
                               [ArgLong code]) s3))
                   (\<lambda>s4. Inr (success1, s4))))
         else if rc0 = CURLE_ABORTED_BY_CALLBACK then
           Inr (success,
                emit (Fputs ''ERROR: HTTP request was aborted.\<newline>'' Log)
                  (emit (Fputs ''ERROR: HTTP request was aborted.\<newline>'' Stderr) s1))
         else Inr (success, s1))"

text \<open>Lines 342 to 344: the handle and the header list are released.\<close>

definition send_finish :: "string list \<Rightarrow> bool \<Rightarrow> state \<Rightarrow> state" where
  "send_finish headers vb s7 =
     (let s8 = emit Curl_easy_cleanup s7;
          s9 = (if headers \<noteq> [] then emit Curl_slist_free_all s8 else s8)
      in if vb then emit (Fputs ''===> return from send()\<newline>'' Stderr) s9 else s9)"

text \<open>
  Lines 312 to 346: after the exchange. \<open>hs\<close> is the header list, \<open>rc0\<close> the
  code \<^verbatim>\<open>curl_easy_perform\<close> returned.
\<close>

definition send_report ::
  "header \<Rightarrow> string \<Rightarrow> ServerType \<Rightarrow> bool \<Rightarrow> int \<Rightarrow> string list
     \<Rightarrow> CURLcode \<times> 'a::len PutData \<times> state \<Rightarrow> fault + (bool \<times> state)"
where
  "send_report h url server_type vb code hs r =
     (let rc0 = fst r; d1 = fst (snd r); s4 = snd (snd r);
          s5 = (if rc0 \<noteq> CURLE_OK
                then emit (Fprintf Log ''ERROR: Sending data to %s failed: %s\<newline>''
                             [ArgStr url, ArgStrerror rc0])
                       (emit (Fprintf Stderr ''ERROR: Sending data to %s failed: %s\<newline>''
                                [ArgStr url, ArgStrerror rc0]) s4)
                else s4)
      in and_then (send_echo h vb (d1, s5)) (\<lambda>ds6.
           and_then (send_classify url server_type vb rc0 code (snd ds6)) (\<lambda>r7.
             Inr (fst r7, send_finish hs vb (snd r7)))))"

text \<open>
  Lines 267 to 311: the capture state is set up, a handle is acquired and
  configured, and the exchange is performed.
\<close>

definition send_dispatch ::
  "header \<Rightarrow> string \<Rightarrow> ServerType \<Rightarrow> int \<Rightarrow> 'a::len exchange \<Rightarrow> int \<Rightarrow> state
     \<Rightarrow> fault + (bool \<times> state)"
where
  "send_dispatch h url server_type verbosity x data_size s1 =
     (let vb = (verbosity AND VERBOSITY_PRINT_DETAILS h \<noteq> 0);
          d = \<lparr>data = 0, len = of_int data_size, response_data = 0,
                response_len = of_nat (SERVER_RESPONSE_BUFFER_SIZE h), verbose = vb\<rparr>
      in and_then (store (response_buffer s1) 0 0) (\<lambda>rb.
           let s2 = emit Curl_easy_init (s1\<lparr>response_buffer := rb\<rparr>)
           in if \<not> handle_available x then
                (let s3 = emit (Fputs ''ERROR: Failed to get curl handle.\<newline>'' Stderr) s2
                 in Inr (False,
                         if vb
                         then emit (Fputs ''===> return from send() without sending because failed to initialize curl\<newline>'' Stderr) s3
                         else s3))
              else
                (let hs = send_request h url server_type verbosity s2
                 in and_then (curl_easy_perform x (d, snd hs))
                      (send_report h url server_type vb (http_code x) (fst hs)))))"

text \<open>\<^verbatim>\<open>send\<close>, lines 251 to 346.\<close>

definition send ::
  "header \<Rightarrow> ReceivedMessage \<Rightarrow> string \<Rightarrow> ServerType \<Rightarrow> int \<Rightarrow> int \<Rightarrow> 'a::len exchange \<Rightarrow> state
     \<Rightarrow> fault + (bool \<times> state)"
where
  "send h message url server_type changed verbosity x s0 =
     and_then (send_encode h message server_type changed verbosity s0) (\<lambda>r.
       let data_size = fst r; s1 = snd r
       in if data_size \<le> 0 then
            Inr (False,
                 if verbosity AND VERBOSITY_PRINT_DETAILS h \<noteq> 0
                 then emit (Fputs ''===> return from send() without sending because output data was not generated\<newline>'' Stderr) s1
                 else s1)
          else send_dispatch h url server_type verbosity x data_size s1)"

subsection \<open>The receive loop of main\<close>

text \<open>
  What the collaborators answer during one pass of the loop (lines 172 to 207):
  \<open>isStopped\<close> is the answer at line 173, \<open>sensorsData_update\<close> the bitmask
  \<^verbatim>\<open>sensorsData.update\<close> returns if it is called, \<open>exchange\<close> what libcurl does
  if \<^verbatim>\<open>send\<close> is called.
\<close>

record (overloaded) 'a iteration =
  waitForMessage :: bool
  isStopped :: bool
  message :: ReceivedMessage
  sensorsData_update :: int
  checkAndResetTimerEvent :: bool
  exchange :: "'a exchange"

datatype control = Continue | Break

text \<open>Lines 180 to 201: the message is classified and handled.\<close>

definition handle_message ::
  "header \<Rightarrow> string \<Rightarrow> ServerType \<Rightarrow> int \<Rightarrow> bool \<Rightarrow> 'a::len iteration \<Rightarrow> state \<Rightarrow> fault + state"
where
  "handle_message h server_url server_type verbosity changes_only it s0 =
     (let m = message it
      in if isEmpty m then
           Inr (emit (Fputs ''ERROR: Missing data.\<newline>'' Stderr) s0)
         else if isUndecoded m then
           Inr (if verbosity AND VERBOSITY_INFO h \<noteq> 0
                then emit (Fprintf Stderr ''Could not decode the received data (error %04x).\<newline>''
                             [ArgHex (getDecodingStatus m)]) s0
                else s0)
         else
           (let valid = isValid m;
                changed0 = (if valid then sensorsData_update it else 0);
                s1 = (if valid then emit SensorsData_update s0 else s0);
                changed = (if changed0 = 0 \<and> \<not> changes_only \<and> (valid \<or> server_type = REST)
                           then TEMPERATURE_IS_CHANGED h OR HUMIDITY_IS_CHANGED h
                                  OR BATTERY_STATUS_IS_CHANGED h
                           else changed0)
            in if changed \<noteq> 0 then
                 and_then
                   (send h m server_url server_type changed verbosity (exchange it) s1)
                   (\<lambda>(ok, s2).
                      Inr (if \<not> ok \<and> verbosity AND VERBOSITY_INFO h \<noteq> 0
                           then emit (Fputs ''No data was sent to server.\<newline>'' Stderr) s2
                           else s2))
               else
                 Inr (if verbosity AND VERBOSITY_INFO h \<noteq> 0
                      then (if \<not> valid
                            then emit (Fputs ''Data is not valid and is not sent to server.\<newline>'' Stderr) s1
                            else emit (Fputs ''Data is not changed and is not sent to server.\<newline>'' Stderr) s1)
                      else s1)))"

text \<open>Lines 172 to 207: one pass of the loop.\<close>

definition loop_body ::
  "header \<Rightarrow> string \<Rightarrow> ServerType \<Rightarrow> int \<Rightarrow> bool \<Rightarrow> 'a::len iteration \<Rightarrow> state
     \<Rightarrow> fault + (control \<times> state)"
where
  "loop_body h server_url server_type verbosity changes_only it s0 =
     (let timer = (\<lambda>s. if checkAndResetTimerEvent it then emit PrintStatistics s else s)
      in if waitForMessage it then
           if isStopped it then Inr (Break, s0)
           else
             (let s1 = (if verbosity AND VERBOSITY_INFO h \<noteq> 0 then
                          (let sa = emit (Message_print Stdout) s0;
                               sb = emit (Message_print Log) sa
                           in if print (message it) Log verbosity then emit (Fflush Log) sb else sb)
                        else s0)
              in and_then (handle_message h server_url server_type verbosity changes_only it s1)
                   (\<lambda>s2. Inr (Continue, timer s2)))
         else Inr (Continue, timer s0))"

text \<open>What a trace shows: the invocations of send, and what was written to a stream.\<close>

definition events_since :: "state \<Rightarrow> state \<Rightarrow> event list" where
  "events_since s s' = drop (length (trace s)) (trace s')"

fun send_calls :: "event list \<Rightarrow> (ServerType \<times> int) list" where
  "send_calls [] = []"
| "send_calls (Enter_send t c # es) = (t, c) # send_calls es"
| "send_calls (e # es) = send_calls es"

fun is_curl_call :: "event \<Rightarrow> bool" where
  "is_curl_call Curl_easy_init = True"
| "is_curl_call (Curl_easy_setopt opt) = True"
| "is_curl_call Curl_easy_perform = True"
| "is_curl_call Curl_easy_getinfo_response_code = True"
| "is_curl_call Curl_easy_cleanup = True"
| "is_curl_call Curl_slist_free_all = True"
| "is_curl_call e = False"

fun written_to :: "stream \<Rightarrow> event \<Rightarrow> bool" where
  "written_to f (Fputs t g) = (f = g)"
| "written_to f (Fputs_buffer t g) = (f = g)"
| "written_to f (Fputc c g) = (f = g)"
| "written_to f (Fprintf g t as) = (f = g)"
| "written_to f (Message_print g) = (f = g)"
| "written_to f e = False"

subsection \<open>What libcurl delivers\<close>

text \<open>
  The bytes one call of the write callback delivers are the first
  \<open>nmemb * size_arg\<close> bytes at \<open>ptr\<close>; libcurl passes a pointer to at least that
  many bytes (\<open>chunk_ok\<close>). \<open>received\<close> is the response as delivered, and
  \<open>is_receiving\<close> recognises the line the callback prints with details
  verbosity.
\<close>

definition payload :: "'a::len chunk \<Rightarrow> byte list" where
  "payload c = take (unat (nmemb c * size_arg c)) (ptr c)"

definition chunk_ok :: "'a::len chunk \<Rightarrow> bool" where
  "chunk_ok c = (unat (nmemb c * size_arg c) \<le> length (ptr c))"

definition received :: "'a::len chunk list \<Rightarrow> byte list" where
  "received cs = concat (map payload cs)"

fun is_receiving :: "event \<Rightarrow> bool" where
  "is_receiving (Fprintf f t as) = (f = Stderr \<and> t = ''receiving %d bytes...\<newline>'')"
| "is_receiving e = False"


text \<open>\<open>is_echo\<close> recognises the echo of the response on the standard error stream.\<close>

fun is_echo :: "event \<Rightarrow> bool" where
  "is_echo (Fputs_buffer b f) = (f = Stderr)"
| "is_echo (Fputc c f) = (f = Stderr)"
| "is_echo e = False"

text \<open>The options set on the handle, in the order of the calls.\<close>

fun options_set :: "event list \<Rightarrow> curlopt list" where
  "options_set [] = []"
| "options_set (Curl_easy_setopt opt # es) = opt # options_set es"
| "options_set (e # es) = options_set es"

text \<open>
  The argument lists of the \<^verbatim>\<open>fprintf\<close> calls with format \<open>fmt\<close> on stream
  \<open>f\<close>, in order.
\<close>

fun printed :: "stream \<Rightarrow> string \<Rightarrow> event list \<Rightarrow> arg list list" where
  "printed f fmt [] = []"
| "printed f fmt (Fprintf g t as # es) =
     (if g = f \<and> t = fmt then as # printed f fmt es else printed f fmt es)"
| "printed f fmt (e # es) = printed f fmt es"

section \<open>Response capture\<close>

lemma memcpy_ok:
  assumes "off + n \<le> length dst" "n \<le> length src"
  shows "memcpy dst off src n = Inr (take off dst @ take n src @ drop (off + n) dst)"
  using assms by (simp add: memcpy_def)

lemma to_copy_unat:
  fixes a b :: "'a::len word"
  shows "unat (if a < b then a else b) = min (unat a) (unat b)"
  by (simp add: word_less_nat_alt min_def)

lemma write_callback_copy:
  fixes d :: "'a::len PutData"
  assumes pos: "0 < k" and k: "k = (if response_len d < n * sz then response_len d else n * sz)"
      and dst: "response_data d + unat k \<le> length (response_buffer s)"
      and src: "unat k \<le> length p"
  shows "write_callback p sz n (d, s) =
           Inr (k, d\<lparr>response_len := response_len d - k, response_data := response_data d + unat k\<rparr>,
                s\<lparr>trace := trace s @ (if verbose d then [Fprintf Stderr ''receiving %d bytes...\<newline>'' [ArgSize (unat k)]] else []),
                  response_buffer := take (response_data d) (response_buffer s) @ take (unat k) p
                       @ drop (response_data d + unat k) (response_buffer s)\<rparr>)"
  using pos dst src unfolding k
  by (simp add: write_callback_def Let_def emit_def memcpy_ok)

lemma write_callback_nocopy:
  fixes d :: "'a::len PutData"
  assumes k: "(if response_len d < n * sz then response_len d else n * sz) = 0"
  shows "write_callback p sz n (d, s) =
           Inr (sz, d,
                s\<lparr>trace := trace s @ (if verbose d then [Fprintf Stderr ''receiving %d bytes...\<newline>'' [ArgSize 0]] else [])\<rparr>)"
  using k by (simp add: write_callback_def Let_def emit_def)

lemma write_callback_step:
  fixes d :: "'a::len PutData"
  assumes inv: "response_data d + unat (response_len d) = length (response_buffer s)"
      and ok: "chunk_ok c"
  shows "\<exists>r d' evs. write_callback (ptr c) (size_arg c) (nmemb c) (d, s) =
             Inr (r, d', s\<lparr>trace := trace s @ evs,
                           response_buffer := take (response_data d) (response_buffer s)
                              @ take (unat (response_len d)) (payload c)
                              @ drop (response_data d + min (unat (response_len d)) (length (payload c)))
                                  (response_buffer s)\<rparr>)
           \<and> response_data d' = response_data d + min (unat (response_len d)) (length (payload c))
           \<and> unat (response_len d') = unat (response_len d) - min (unat (response_len d)) (length (payload c))
           \<and> verbose d' = verbose d
           \<and> list_all is_receiving evs \<and> (\<not> verbose d \<longrightarrow> evs = [])"
proof -
  define k where "k = (if response_len d < nmemb c * size_arg c then response_len d else nmemb c * size_arg c)"
  have lp: "length (payload c) = unat (nmemb c * size_arg c)"
    using ok by (simp add: payload_def chunk_ok_def)
  have uk: "unat k = min (unat (response_len d)) (length (payload c))"
    unfolding k_def lp by (rule to_copy_unat)
  have kle: "k \<le> response_len d"
    unfolding k_def by (simp add: not_less)
  have tk: "take (unat k) (ptr c) = take (unat (response_len d)) (payload c)"
    using uk lp by (simp add: payload_def min_def split: if_splits)
  show ?thesis
  proof (cases "k = 0")
    case True
    then have eq: "write_callback (ptr c) (size_arg c) (nmemb c) (d, s) =
           Inr (size_arg c, d,
                s\<lparr>trace := trace s @ (if verbose d then [Fprintf Stderr ''receiving %d bytes...\<newline>'' [ArgSize 0]] else [])\<rparr>)"
      unfolding k_def by (rule write_callback_nocopy)
    have k0: "unat k = 0" using True by simp
    have e: "take (unat (response_len d)) (payload c) = []"
      using tk k0 by simp
    have m0: "min (unat (response_len d)) (length (payload c)) = 0"
      using uk k0 by simp
    show ?thesis
      unfolding eq e m0
      by (intro exI [of _ "size_arg c"] exI [of _ d]
            exI [of _ "if verbose d then [Fprintf Stderr ''receiving %d bytes...\<newline>'' [ArgSize 0]] else []"])
         simp
  next
    case False
    then have pos: "0 < k" by (simp add: word_greater_zero_iff)
    have dst: "response_data d + unat k \<le> length (response_buffer s)"
      using inv uk by simp
    have srck: "unat k \<le> length (ptr c)" using ok uk lp by (simp add: chunk_ok_def)
    have sub: "unat (response_len d - k) = unat (response_len d) - unat k"
      using kle by (simp add: unat_sub)
    note eq = write_callback_copy [OF pos k_def dst srck]
    show ?thesis
      unfolding eq tk using uk sub
      by (intro exI [of _ k]
            exI [of _ "d\<lparr>response_len := response_len d - k, response_data := response_data d + unat k\<rparr>"]
            exI [of _ "if verbose d then [Fprintf Stderr ''receiving %d bytes...\<newline>'' [ArgSize (unat k)]] else []"])
         simp
  qed
qed

lemma splice:
  fixes buf P R :: "'b list"
  assumes len: "off + rem = length buf"
  shows "take (off + min rem (length P)) (take off buf @ take rem P @ drop (off + min rem (length P)) buf)
           @ take (rem - min rem (length P)) R
           @ drop (off + min rem (length P) + min (rem - min rem (length P)) (length R))
               (take off buf @ take rem P @ drop (off + min rem (length P)) buf)
         = take off buf @ take rem (P @ R) @ drop (off + min rem (length P + length R)) buf"
proof (cases "rem \<le> length P")
  case True
  then have m: "min rem (length P) = rem" "min rem (length P + length R) = rem" by simp_all
  have o: "length buf - off = rem" "off \<le> length buf" using len by simp_all
  show ?thesis unfolding m using True o by simp
next
  case False
  then have m: "min rem (length P) = length P" by simp
  have m2: "min rem (length P + length R) = length P + min (rem - length P) (length R)"
    using False by arith
  have o: "off \<le> length buf" using len by simp
  show ?thesis unfolding m m2 using False o by (simp add: ac_simps)
qed

lemma deliver_run:
  fixes d :: "'a::len PutData"
  assumes "list_all chunk_ok cs"
      and "response_data d + unat (response_len d) = length (response_buffer s)"
  shows "\<exists>d' evs. deliver cs (d, s) =
             Inr (d', s\<lparr>trace := trace s @ evs,
                        response_buffer := take (response_data d) (response_buffer s)
                           @ take (unat (response_len d)) (received cs)
                           @ drop (response_data d + min (unat (response_len d)) (length (received cs)))
                               (response_buffer s)\<rparr>)
           \<and> response_data d' = response_data d + min (unat (response_len d)) (length (received cs))
           \<and> unat (response_len d') = unat (response_len d) - min (unat (response_len d)) (length (received cs))
           \<and> verbose d' = verbose d
           \<and> list_all is_receiving evs \<and> (\<not> verbose d \<longrightarrow> evs = [])"
  using assms
proof (induction cs arbitrary: d s)
  case Nil
  show ?case
    by (intro exI [of _ d] exI [of _ "[]"]) (simp add: received_def)
next
  case (Cons c cs)
  let ?off = "response_data d" and ?rem = "unat (response_len d)" and ?buf = "response_buffer s"
  let ?k = "min ?rem (length (payload c))"
  let ?B1 = "take ?off ?buf @ take ?rem (payload c) @ drop (?off + ?k) ?buf"
  from Cons.prems have ok: "chunk_ok c" and oks: "list_all chunk_ok cs" by simp_all
  from write_callback_step [OF Cons.prems(2) ok]
  obtain r d1 evs1 where
    w: "write_callback (ptr c) (size_arg c) (nmemb c) (d, s) =
          Inr (r, d1, s\<lparr>trace := trace s @ evs1, response_buffer := ?B1\<rparr>)"
    and d1: "response_data d1 = ?off + ?k" "unat (response_len d1) = ?rem - ?k" "verbose d1 = verbose d"
    and e1: "list_all is_receiving evs1" "\<not> verbose d \<longrightarrow> evs1 = []"
    by blast
  let ?s1 = "s\<lparr>trace := trace s @ evs1, response_buffer := ?B1\<rparr>"
  have lenB1: "length ?B1 = length ?buf"
    using Cons.prems(2) by (simp add: min_def)
  have inv1: "response_data d1 + unat (response_len d1) = length (response_buffer ?s1)"
    using d1 Cons.prems(2) lenB1 by (simp add: min_def)
  from Cons.IH [OF oks inv1]
  obtain d' evs2 where
    r: "deliver cs (d1, ?s1) =
          Inr (d', ?s1\<lparr>trace := trace ?s1 @ evs2,
                 response_buffer := take (response_data d1) (response_buffer ?s1)
                    @ take (unat (response_len d1)) (received cs)
                    @ drop (response_data d1 + min (unat (response_len d1)) (length (received cs)))
                        (response_buffer ?s1)\<rparr>)"
    and d': "response_data d' = response_data d1 + min (unat (response_len d1)) (length (received cs))"
            "unat (response_len d') = unat (response_len d1) - min (unat (response_len d1)) (length (received cs))"
            "verbose d' = verbose d1"
    and e2: "list_all is_receiving evs2" "\<not> verbose d1 \<longrightarrow> evs2 = []"
    by blast
  have rc: "received (c # cs) = payload c @ received cs"
    by (simp add: received_def)
  have buf: "take (response_data d1) ?B1 @ take (unat (response_len d1)) (received cs)
               @ drop (response_data d1 + min (unat (response_len d1)) (length (received cs))) ?B1
             = take ?off ?buf @ take ?rem (received (c # cs))
               @ drop (?off + min ?rem (length (received (c # cs)))) ?buf"
    unfolding d1 rc length_append by (rule splice [OF Cons.prems(2)])
  have num: "?k + min (?rem - ?k) (length (received cs)) = min ?rem (length (received (c # cs)))"
    unfolding rc length_append by arith
  have dl: "deliver (c # cs) (d, s) = deliver cs (d1, ?s1)"
    by (simp add: w)
  have st: "?s1\<lparr>trace := trace ?s1 @ evs2,
                 response_buffer := take (response_data d1) (response_buffer ?s1)
                    @ take (unat (response_len d1)) (received cs)
                    @ drop (response_data d1 + min (unat (response_len d1)) (length (received cs)))
                        (response_buffer ?s1)\<rparr>
            = s\<lparr>trace := trace s @ (evs1 @ evs2),
                 response_buffer := take ?off ?buf @ take ?rem (received (c # cs))
                    @ drop (?off + min ?rem (length (received (c # cs)))) ?buf\<rparr>"
    unfolding buf [symmetric] by simp
  have n1: "response_data d' = ?off + min ?rem (length (received (c # cs)))"
    unfolding d'(1) d1 num [symmetric] by simp
  have n2: "unat (response_len d') = ?rem - min ?rem (length (received (c # cs)))"
    unfolding d'(2) d1 num [symmetric] by simp
  have v: "verbose d' = verbose d"
    using d'(3) d1(3) by simp
  have ev: "list_all is_receiving (evs1 @ evs2)" "\<not> verbose d \<longrightarrow> evs1 @ evs2 = []"
    using e1 e2 d1(3) by simp_all
  have "deliver (c # cs) (d, s) =
          Inr (d', s\<lparr>trace := trace s @ (evs1 @ evs2),
                 response_buffer := take ?off ?buf @ take ?rem (received (c # cs))
                    @ drop (?off + min ?rem (length (received (c # cs)))) ?buf\<rparr>)"
    unfolding dl r st ..
  with n1 n2 v ev show ?case by blast
qed

text \<open>
  Claim C3. Whatever sequence of chunks libcurl delivers to the write callback
  during one exchange, started as \<^verbatim>\<open>send\<close> starts it (the write pointer at
  the start of the inbound buffer, the remaining capacity equal to the size of
  the buffer), the calls all return, the number of bytes copied into the buffer
  (the advance of the write pointer) is the smaller of the capacity and the
  number of bytes delivered, so never more than the capacity, the remaining
  capacity has gone down by exactly that number, and the buffer holds the first
  bytes of the response and keeps its length. Each single call copies the
  smaller of the chunk size and the remaining capacity
  (\<open>write_callback_step\<close>).
\<close>

theorem capture_within_capacity:
  fixes cs :: "'a::len chunk list"
  assumes chunks: "list_all chunk_ok cs"
      and cap: "length (response_buffer s) = cap" "cap < 2 ^ LENGTH('a)"
  shows "\<exists>d' s'. deliver cs (\<lparr>data = 0, len = n, response_data = 0,
                               response_len = of_nat cap, verbose = vb\<rparr>, s) = Inr (d', s')
           \<and> response_data d' = min cap (length (received cs))
           \<and> response_data d' \<le> cap
           \<and> unat (response_len d') = cap - response_data d'
           \<and> response_buffer s' = take cap (received cs) @ drop (length (received cs)) (response_buffer s)
           \<and> length (response_buffer s') = cap"
proof -
  let ?d = "\<lparr>data = 0, len = n, response_data = 0, response_len = (of_nat cap :: 'a word), verbose = vb\<rparr>"
  have u: "unat (of_nat cap :: 'a word) = cap"
    using cap(2) by (simp add: unat_of_nat take_bit_nat_eq_self)
  have inv: "response_data ?d + unat (response_len ?d) = length (response_buffer s)"
    using cap(1) u by simp
  have "\<exists>d' evs. deliver cs (?d, s) =
          Inr (d', s\<lparr>trace := trace s @ evs,
                 response_buffer := take cap (received cs)
                    @ drop (min cap (length (received cs))) (response_buffer s)\<rparr>)
          \<and> response_data d' = min cap (length (received cs))
          \<and> unat (response_len d') = cap - min cap (length (received cs))"
    using deliver_run [OF chunks inv] by (simp add: u) blast
  then obtain d' evs where
    r: "deliver cs (?d, s) =
          Inr (d', s\<lparr>trace := trace s @ evs,
                 response_buffer := take cap (received cs)
                    @ drop (min cap (length (received cs))) (response_buffer s)\<rparr>)"
    and d': "response_data d' = min cap (length (received cs))"
            "unat (response_len d') = cap - min cap (length (received cs))"
    by blast
  have b: "take cap (received cs) @ drop (min cap (length (received cs))) (response_buffer s)
           = take cap (received cs) @ drop (length (received cs)) (response_buffer s)"
    using cap(1) by (simp add: min_def)
  show ?thesis
    unfolding r b using d' cap(1) by (simp add: min_def)
qed

text \<open>
  An instance: a buffer of four bytes and two chunks of three bytes each. The
  first chunk is copied whole, the second is cut to one byte.
\<close>

theorem capture_within_capacity_witness:
  "list_all chunk_ok [\<lparr>ptr = [1, 2, 3], size_arg = 1, nmemb = 3 :: 32 word\<rparr>,
                      \<lparr>ptr = [4, 5, 6], size_arg = 1, nmemb = 3\<rparr>]
   \<and> (\<exists>d' s'. deliver [\<lparr>ptr = [1, 2, 3], size_arg = 1, nmemb = 3 :: 32 word\<rparr>,
                         \<lparr>ptr = [4, 5, 6], size_arg = 1, nmemb = 3\<rparr>]
                  (\<lparr>data = 0, len = 9, response_data = 0, response_len = 4, verbose = False\<rparr>,
                   \<lparr>data_buffer = [], response_buffer = [0, 0, 0, 0], trace = []\<rparr>) = Inr (d', s')
         \<and> response_data d' = 4 \<and> unat (response_len d') = 0
         \<and> response_buffer s' = [1, 2, 3, 4])"
  using capture_within_capacity [of "[\<lparr>ptr = [1, 2, 3], size_arg = 1, nmemb = 3 :: 32 word\<rparr>,
                      \<lparr>ptr = [4, 5, 6], size_arg = 1, nmemb = 3\<rparr>]"
     "\<lparr>data_buffer = [], response_buffer = [0, 0, 0, 0], trace = []\<rparr>" 4 9 False]
  by (auto simp add: chunk_ok_def received_def payload_def simp del: deliver.simps)

section \<open>The stages of send\<close>

lemma and_then_Inr [simp]: "and_then (Inr v) f = f v"
  by (simp add: and_then_def)

lemma and_then_Inl [simp]: "and_then (Inl e) f = Inl e"
  by (simp add: and_then_def)

lemma and_then_eq_Inr: "and_then m f = Inr v \<longleftrightarrow> (\<exists>u. m = Inr u \<and> f u = Inr v)"
  by (cases m) simp_all

lemma store_ok: "buf \<noteq> [] \<Longrightarrow> store buf 0 v = Inr (buf[0 := v])"
  by (simp add: store_def)

lemma send_encode_eq:
  assumes "data_buffer s \<noteq> []"
  shows "send_encode h m server_type changed verbosity s =
           Inr (fst (encode h m server_type changed verbosity ((data_buffer s)[0 := 0])),
                s\<lparr>data_buffer := snd (encode h m server_type changed verbosity ((data_buffer s)[0 := 0])),
                  trace := trace s @ Enter_send server_type changed
                     # (if verbosity AND VERBOSITY_PRINT_DETAILS h \<noteq> 0
                        then [Fputs ''===> called send()\<newline>'' Stderr] else [])\<rparr>)"
  using assms by (simp add: send_encode_def Let_def emit_def store_ok)

lemma write_callback_trace:
  assumes "write_callback p sz n (d, s) = Inr (r, d', s')"
  shows "\<exists>evs. trace s' = trace s @ evs \<and> list_all is_receiving evs
           \<and> data_buffer s' = data_buffer s \<and> verbose d' = verbose d"
  using assms
  by (auto simp add: write_callback_def Let_def emit_def split: if_splits sum.splits)

lemma deliver_trace:
  assumes "deliver cs (d, s) = Inr (d', s')"
  shows "\<exists>evs. trace s' = trace s @ evs \<and> list_all is_receiving evs
           \<and> data_buffer s' = data_buffer s"
  using assms
proof (induction cs arbitrary: d s)
  case Nil
  then show ?case by simp
next
  case (Cons c cs)
  from Cons.prems obtain r d1 s1 where
    w: "write_callback (ptr c) (size_arg c) (nmemb c) (d, s) = Inr (r, d1, s1)"
    and dl: "deliver cs (d1, s1) = Inr (d', s')"
    by (auto split: sum.splits)
  from write_callback_trace [OF w] obtain e1 where
    e1: "trace s1 = trace s @ e1" "list_all is_receiving e1" "data_buffer s1 = data_buffer s"
    by blast
  from Cons.IH [OF dl] obtain e2 where
    e2: "trace s' = trace s1 @ e2" "list_all is_receiving e2" "data_buffer s' = data_buffer s1"
    by blast
  show ?case
    by (rule exI [of _ "e1 @ e2"]) (simp add: e1 e2)
qed

lemma send_echo_trace:
  assumes "send_echo h vb (d, s) = Inr (d', s')"
  shows "\<exists>evs. trace s' = trace s @ evs \<and> list_all is_echo evs \<and> data_buffer s' = data_buffer s"
  using assms
  by (auto simp add: send_echo_def Let_def emit_def and_then_eq_Inr split: if_splits)

lemma send_request_eq:
  "send_request h url st v s =
     (case st of
        REST \<Rightarrow> [''Content-Type: application/json'', ''Accept: application/json'',
                 ''charsets: utf-8'', ''Connection: close'']
      | InfluxDB \<Rightarrow> [''Content-Type:'', ''Accept:''],
      s\<lparr>trace := trace s @ map Curl_easy_setopt
         ((if v AND VERBOSITY_PRINT_CURL h \<noteq> 0 then [CURLOPT_VERBOSE 1] else [])
          @ (case st of
               REST \<Rightarrow>
                 [CURLOPT_HTTPHEADER [''Content-Type: application/json'', ''Accept: application/json'',
                                      ''charsets: utf-8'', ''Connection: close''],
                  CURLOPT_URL url, CURLOPT_CUSTOMREQUEST ''PUT'']
             | InfluxDB \<Rightarrow>
                 [CURLOPT_HTTPHEADER [''Content-Type:'', ''Accept:''],
                  CURLOPT_URL url, CURLOPT_CUSTOMREQUEST ''POST''])
          @ [CURLOPT_POSTFIELDS (data_buffer s), CURLOPT_WRITEFUNCTION, CURLOPT_WRITEDATA])\<rparr>)"
  by (cases st) (simp_all add: send_request_def Let_def emit_def)

lemma send_request_frame:
  "data_buffer (snd (send_request h url st v s)) = data_buffer s"
  "response_buffer (snd (send_request h url st v s)) = response_buffer s"
  by (simp_all add: send_request_eq)

lemma log_response_trace:
  assumes "log_response s = Inr s'"
  shows "s' = s\<lparr>trace := trace s @ [Fputs_buffer (takeWhile (\<lambda>b. b \<noteq> 0) (response_buffer s)) Log,
                                     Fputc CHR 0x0A Log]\<rparr>"
  using assms
  by (auto simp add: log_response_def c_string_def emit_def and_then_eq_Inr split: if_splits)

lemma send_classify_result:
  assumes "send_classify url st vb rc0 code s = Inr (b, s')"
  shows "b = (rc0 = CURLE_OK \<and> code = (if st = InfluxDB then 204 else 200))"
  using assms
  by (auto simp add: send_classify_def Let_def and_then_eq_Inr split: if_splits)

lemma send_classify_trace:
  assumes "send_classify url st vb rc0 code s = Inr (b, s')"
  shows "trace s' = trace s @ Curl_easy_getinfo_response_code #
           (if code \<noteq> (if st = InfluxDB then 204 else 200) then
              (if code = 0
               then Fprintf Stderr ''ERROR: Failed to connect to server %s\<newline>'' [ArgStr url]
               else Fprintf Stderr ''ERROR: Got HTTP status code %ld.\<newline>'' [ArgLong code])
              # (if vb then [Fputs_buffer (takeWhile (\<lambda>b. b \<noteq> 0) (response_buffer s)) Log,
                             Fputc CHR 0x0A Log] else [])
              @ [Fprintf Log ''ERROR: Got HTTP status code %ld.\<newline>'' [ArgLong code],
                 Fputs_buffer (takeWhile (\<lambda>b. b \<noteq> 0) (response_buffer s)) Log,
                 Fputc CHR 0x0A Log]
            else if rc0 = CURLE_ABORTED_BY_CALLBACK then
              [Fputs ''ERROR: HTTP request was aborted.\<newline>'' Stderr,
               Fputs ''ERROR: HTTP request was aborted.\<newline>'' Log]
            else [])"
  using assms
  by (auto simp add: send_classify_def Let_def emit_def and_then_eq_Inr
        dest!: log_response_trace split: if_splits)

lemma send_report_Inr:
  fixes d1 :: "'a::len PutData"
  assumes "send_report h url st vb code hs (rc0, d1, s4) = Inr (b, s')"
  obtains d2 s6 s7 where
    "send_echo h vb
       (d1, if rc0 \<noteq> CURLE_OK
            then s4\<lparr>trace := trace s4 @
                   [Fprintf Stderr ''ERROR: Sending data to %s failed: %s\<newline>'' [ArgStr url, ArgStrerror rc0],
                    Fprintf Log ''ERROR: Sending data to %s failed: %s\<newline>'' [ArgStr url, ArgStrerror rc0]]\<rparr>
            else s4) = Inr (d2, s6)"
    "send_classify url st vb rc0 code s6 = Inr (b, s7)"
    "s' = send_finish hs vb s7"
proof -
  from assms obtain ds6 r7 where
    a: "send_echo h vb
       (d1, if rc0 \<noteq> CURLE_OK
            then s4\<lparr>trace := trace s4 @
                   [Fprintf Stderr ''ERROR: Sending data to %s failed: %s\<newline>'' [ArgStr url, ArgStrerror rc0],
                    Fprintf Log ''ERROR: Sending data to %s failed: %s\<newline>'' [ArgStr url, ArgStrerror rc0]]\<rparr>
            else s4) = Inr ds6"
    and b: "send_classify url st vb rc0 code (snd ds6) = Inr r7"
    and c: "b = fst r7" "s' = send_finish hs vb (snd r7)"
    unfolding send_report_def Let_def and_then_eq_Inr fst_conv snd_conv emit_def
    by (cases "rc0 = CURLE_OK") auto
  show ?thesis
    by (rule that [of "fst ds6" "snd ds6" "snd r7"]) (simp_all add: a b c)
qed

lemma send_finish_trace:
  "trace (send_finish hs vb s) = trace s @ Curl_easy_cleanup
     # (if hs \<noteq> [] then [Curl_slist_free_all] else [])
     @ (if vb then [Fputs ''===> return from send()\<newline>'' Stderr] else [])"
  by (simp add: send_finish_def Let_def emit_def)

lemma send_report_trace:
  fixes d1 :: "'a::len PutData"
  assumes "send_report h url st vb code hs (rc0, d1, s4) = Inr (b, s')"
  shows "\<exists>echo buf. list_all is_echo echo \<and>
           trace s' = trace s4
             @ (if rc0 \<noteq> CURLE_OK
                then [Fprintf Stderr ''ERROR: Sending data to %s failed: %s\<newline>'' [ArgStr url, ArgStrerror rc0],
                      Fprintf Log ''ERROR: Sending data to %s failed: %s\<newline>'' [ArgStr url, ArgStrerror rc0]]
                else [])
             @ echo
             @ Curl_easy_getinfo_response_code #
               (if code \<noteq> (if st = InfluxDB then 204 else 200) then
                  (if code = 0
                   then Fprintf Stderr ''ERROR: Failed to connect to server %s\<newline>'' [ArgStr url]
                   else Fprintf Stderr ''ERROR: Got HTTP status code %ld.\<newline>'' [ArgLong code])
                  # (if vb then [Fputs_buffer (takeWhile (\<lambda>b. b \<noteq> 0) buf) Log,
                                 Fputc CHR 0x0A Log] else [])
                  @ [Fprintf Log ''ERROR: Got HTTP status code %ld.\<newline>'' [ArgLong code],
                     Fputs_buffer (takeWhile (\<lambda>b. b \<noteq> 0) buf) Log,
                     Fputc CHR 0x0A Log]
                else if rc0 = CURLE_ABORTED_BY_CALLBACK then
                  [Fputs ''ERROR: HTTP request was aborted.\<newline>'' Stderr,
                   Fputs ''ERROR: HTTP request was aborted.\<newline>'' Log]
                else [])
             @ Curl_easy_cleanup
             # (if hs \<noteq> [] then [Curl_slist_free_all] else [])
             @ (if vb then [Fputs ''===> return from send()\<newline>'' Stderr] else [])"
proof -
  from assms obtain d2 s6 s7 where
    e: "send_echo h vb
       (d1, if rc0 \<noteq> CURLE_OK
            then s4\<lparr>trace := trace s4 @
                   [Fprintf Stderr ''ERROR: Sending data to %s failed: %s\<newline>'' [ArgStr url, ArgStrerror rc0],
                    Fprintf Log ''ERROR: Sending data to %s failed: %s\<newline>'' [ArgStr url, ArgStrerror rc0]]\<rparr>
            else s4) = Inr (d2, s6)"
    and c: "send_classify url st vb rc0 code s6 = Inr (b, s7)"
    and f: "s' = send_finish hs vb s7"
    by (rule send_report_Inr)
  from send_echo_trace [OF e] obtain echo where
    echo: "trace s6 = trace (if rc0 \<noteq> CURLE_OK
            then s4\<lparr>trace := trace s4 @
                   [Fprintf Stderr ''ERROR: Sending data to %s failed: %s\<newline>'' [ArgStr url, ArgStrerror rc0],
                    Fprintf Log ''ERROR: Sending data to %s failed: %s\<newline>'' [ArgStr url, ArgStrerror rc0]]\<rparr>
            else s4) @ echo"
    and le: "list_all is_echo echo"
    by blast
  note ct = send_classify_trace [OF c]
  show ?thesis
    apply (rule exI [of _ echo])
    apply (rule exI [of _ "response_buffer s6"])
    unfolding f send_finish_trace ct echo
    using le by (cases "rc0 = CURLE_OK") simp_all
qed

lemma send_report_result:
  fixes d1 :: "'a::len PutData"
  assumes "send_report h url st vb code hs (rc0, d1, s4) = Inr (b, s')"
  shows "b = (rc0 = CURLE_OK \<and> code = (if st = InfluxDB then 204 else 200))"
proof -
  from assms obtain d2 s6 s7 where
    c: "send_classify url st vb rc0 code s6 = Inr (b, s7)"
    by (rule send_report_Inr)
  then show ?thesis by (rule send_classify_result)
qed

lemma send_dispatch_Inr:
  fixes x :: "'a::len exchange"
  assumes hd: "handle_available x"
      and ret: "send_dispatch h url st v x n s1 = Inr (b, s')"
  obtains rb d1 s4 where
    "store (response_buffer s1) 0 0 = Inr rb"
    "deliver (chunks x)
       (\<lparr>data = 0, len = of_int n, response_data = 0,
         response_len = of_nat (SERVER_RESPONSE_BUFFER_SIZE h),
         verbose = (v AND VERBOSITY_PRINT_DETAILS h \<noteq> 0)\<rparr>,
        emit Curl_easy_perform
          (snd (send_request h url st v (emit Curl_easy_init (s1\<lparr>response_buffer := rb\<rparr>)))))
     = Inr (d1, s4)"
    "send_report h url st (v AND VERBOSITY_PRINT_DETAILS h \<noteq> 0) (http_code x)
       (fst (send_request h url st v s1)) (rc x, d1, s4) = Inr (b, s')"
proof -
  from ret hd obtain rb r where
    a: "store (response_buffer s1) 0 0 = Inr rb"
    and b: "deliver (chunks x)
       (\<lparr>data = 0, len = of_int n, response_data = 0,
         response_len = of_nat (SERVER_RESPONSE_BUFFER_SIZE h),
         verbose = (v AND VERBOSITY_PRINT_DETAILS h \<noteq> 0)\<rparr>,
        emit Curl_easy_perform
          (snd (send_request h url st v (emit Curl_easy_init (s1\<lparr>response_buffer := rb\<rparr>)))))
     = Inr r"
    and c: "send_report h url st (v AND VERBOSITY_PRINT_DETAILS h \<noteq> 0) (http_code x)
       (fst (send_request h url st v (emit Curl_easy_init (s1\<lparr>response_buffer := rb\<rparr>))))
       (rc x, r) = Inr (b, s')"
    unfolding send_dispatch_def Let_def curl_easy_perform_def and_then_eq_Inr fst_conv snd_conv
    by (auto simp add: and_then_eq_Inr)
  have hs: "fst (send_request h url st v (emit Curl_easy_init (s1\<lparr>response_buffer := rb\<rparr>)))
            = fst (send_request h url st v s1)"
    by (simp add: send_request_eq)
  show ?thesis
    by (rule that [of rb "fst r" "snd r"]) (simp_all add: a b c [unfolded hs])
qed

lemma events_since_append: "trace s' = trace s @ evs \<Longrightarrow> events_since s s' = evs"
  by (simp add: events_since_def)

lemma send_completed:
  fixes x :: "'a::len exchange"
  assumes db: "data_buffer s \<noteq> []"
      and n: "0 < fst (encode h m st ch v ((data_buffer s)[0 := 0]))"
      and hd: "handle_available x"
      and ret: "send h m url st ch v x s = Inr (b, s')"
  shows "\<exists>recv echo buf. list_all is_receiving recv \<and> list_all is_echo echo \<and>
     events_since s s' =
       Enter_send st ch
       # (if v AND VERBOSITY_PRINT_DETAILS h \<noteq> 0 then [Fputs ''===> called send()\<newline>'' Stderr] else [])
       @ Curl_easy_init
       # map Curl_easy_setopt
           ((if v AND VERBOSITY_PRINT_CURL h \<noteq> 0 then [CURLOPT_VERBOSE 1] else [])
            @ (case st of
                 REST \<Rightarrow>
                   [CURLOPT_HTTPHEADER [''Content-Type: application/json'', ''Accept: application/json'',
                                        ''charsets: utf-8'', ''Connection: close''],
                    CURLOPT_URL url, CURLOPT_CUSTOMREQUEST ''PUT'']
               | InfluxDB \<Rightarrow>
                   [CURLOPT_HTTPHEADER [''Content-Type:'', ''Accept:''],
                    CURLOPT_URL url, CURLOPT_CUSTOMREQUEST ''POST''])
            @ [CURLOPT_POSTFIELDS (snd (encode h m st ch v ((data_buffer s)[0 := 0]))),
               CURLOPT_WRITEFUNCTION, CURLOPT_WRITEDATA])
       @ Curl_easy_perform
       # recv
       @ (if rc x \<noteq> CURLE_OK
          then [Fprintf Stderr ''ERROR: Sending data to %s failed: %s\<newline>'' [ArgStr url, ArgStrerror (rc x)],
                Fprintf Log ''ERROR: Sending data to %s failed: %s\<newline>'' [ArgStr url, ArgStrerror (rc x)]]
          else [])
       @ echo
       @ Curl_easy_getinfo_response_code #
         (if http_code x \<noteq> (if st = InfluxDB then 204 else 200) then
            (if http_code x = 0
             then Fprintf Stderr ''ERROR: Failed to connect to server %s\<newline>'' [ArgStr url]
             else Fprintf Stderr ''ERROR: Got HTTP status code %ld.\<newline>'' [ArgLong (http_code x)])
            # (if v AND VERBOSITY_PRINT_DETAILS h \<noteq> 0
               then [Fputs_buffer (takeWhile (\<lambda>b. b \<noteq> 0) buf) Log, Fputc CHR 0x0A Log] else [])
            @ [Fprintf Log ''ERROR: Got HTTP status code %ld.\<newline>'' [ArgLong (http_code x)],
               Fputs_buffer (takeWhile (\<lambda>b. b \<noteq> 0) buf) Log,
               Fputc CHR 0x0A Log]
          else if rc x = CURLE_ABORTED_BY_CALLBACK then
            [Fputs ''ERROR: HTTP request was aborted.\<newline>'' Stderr,
             Fputs ''ERROR: HTTP request was aborted.\<newline>'' Log]
          else [])
       @ Curl_easy_cleanup
       # [Curl_slist_free_all]
       @ (if v AND VERBOSITY_PRINT_DETAILS h \<noteq> 0 then [Fputs ''===> return from send()\<newline>'' Stderr] else [])"
proof -
  let ?r = "encode h m st ch v ((data_buffer s)[0 := 0])"
  let ?vb = "v AND VERBOSITY_PRINT_DETAILS h \<noteq> 0"
  let ?s1 = "s\<lparr>data_buffer := snd ?r,
                trace := trace s @ Enter_send st ch
                  # (if ?vb then [Fputs ''===> called send()\<newline>'' Stderr] else [])\<rparr>"
  have sd: "send_dispatch h url st v x (fst ?r) ?s1 = Inr (b, s')"
    using ret n by (simp add: send_def send_encode_eq [OF db] Let_def)
  from send_dispatch_Inr [OF hd sd] obtain rb d1 s4 where
    dl: "deliver (chunks x)
       (\<lparr>data = 0, len = of_int (fst ?r), response_data = 0,
         response_len = of_nat (SERVER_RESPONSE_BUFFER_SIZE h), verbose = ?vb\<rparr>,
        emit Curl_easy_perform
          (snd (send_request h url st v (emit Curl_easy_init (?s1\<lparr>response_buffer := rb\<rparr>)))))
     = Inr (d1, s4)"
    and rp: "send_report h url st ?vb (http_code x) (fst (send_request h url st v ?s1)) (rc x, d1, s4)
              = Inr (b, s')"
    by blast
  from deliver_trace [OF dl] obtain recv where
    t4: "trace s4 = trace (emit Curl_easy_perform
          (snd (send_request h url st v (emit Curl_easy_init (?s1\<lparr>response_buffer := rb\<rparr>))))) @ recv"
    and lr: "list_all is_receiving recv"
    by blast
  from send_report_trace [OF rp] obtain echo buf where
    le: "list_all is_echo echo"
    and t': "trace s' = trace s4
             @ (if rc x \<noteq> CURLE_OK
                then [Fprintf Stderr ''ERROR: Sending data to %s failed: %s\<newline>'' [ArgStr url, ArgStrerror (rc x)],
                      Fprintf Log ''ERROR: Sending data to %s failed: %s\<newline>'' [ArgStr url, ArgStrerror (rc x)]]
                else [])
             @ echo
             @ Curl_easy_getinfo_response_code #
               (if http_code x \<noteq> (if st = InfluxDB then 204 else 200) then
                  (if http_code x = 0
                   then Fprintf Stderr ''ERROR: Failed to connect to server %s\<newline>'' [ArgStr url]
                   else Fprintf Stderr ''ERROR: Got HTTP status code %ld.\<newline>'' [ArgLong (http_code x)])
                  # (if ?vb then [Fputs_buffer (takeWhile (\<lambda>b. b \<noteq> 0) buf) Log,
                                 Fputc CHR 0x0A Log] else [])
                  @ [Fprintf Log ''ERROR: Got HTTP status code %ld.\<newline>'' [ArgLong (http_code x)],
                     Fputs_buffer (takeWhile (\<lambda>b. b \<noteq> 0) buf) Log,
                     Fputc CHR 0x0A Log]
                else if rc x = CURLE_ABORTED_BY_CALLBACK then
                  [Fputs ''ERROR: HTTP request was aborted.\<newline>'' Stderr,
                   Fputs ''ERROR: HTTP request was aborted.\<newline>'' Log]
                else [])
             @ Curl_easy_cleanup
             # (if fst (send_request h url st v ?s1) \<noteq> [] then [Curl_slist_free_all] else [])
             @ (if ?vb then [Fputs ''===> return from send()\<newline>'' Stderr] else [])"
    by blast
  have hs: "fst (send_request h url st v ?s1) \<noteq> []"
    by (cases st) (simp_all add: send_request_eq)
  show ?thesis
    apply (rule exI [of _ recv])
    apply (rule exI [of _ echo])
    apply (rule exI [of _ buf])
    apply (simp only: lr le simp_thms)
    apply (rule events_since_append)
    unfolding t' t4
    using hs by (simp add: send_request_eq emit_def)
qed

end
